theory Spec2Isabelle
  imports Main
begin

section \<open>The checks controller of backend/apid/controllers/checks.go\<close>

subsection \<open>Data model and collaborators\<close>

text \<open>A Go \<open>error\<close> is identified with its message \<open>err.Error()\<close>.\<close>

type_synonym error = string

text \<open>
  Modelled from the spec: \<open>types.CheckConfig\<close> is declared in a package outside the
  sources at hand. The specification describes a resource as a unique \<open>name\<close> (the store
  key) and an opaque payload. A \<open>*types.CheckConfig\<close> that may be \<open>nil\<close> is a
  \<open>CheckConfig option\<close>.
\<close>

record CheckConfig =
  Name :: string
  Payload :: string

text \<open>
  The value of \<open>authorization.Checks.WithContext(r.Context())\<close>: the capability
  predicates of the caller. \<open>CanList\<close> and \<open>CanDelete\<close> take no resource.
\<close>

record Abilities =
  CanList :: bool
  CanRead :: "CheckConfig \<Rightarrow> bool"
  CanCreate :: "CheckConfig \<Rightarrow> bool"
  CanUpdate :: "CheckConfig \<Rightarrow> bool"
  CanDelete :: bool

text \<open>
  The four methods of \<open>store.Store\<close> the controller calls, over a store state \<open>'s\<close> that
  each call may change. A Go result \<open>(value, err)\<close> is read error first, as the
  controller does, so it is a sum; a result \<open>err\<close> alone is an \<open>error option\<close>.
\<close>

record 's Store =
  GetCheckConfigs :: "'s \<Rightarrow> (error + CheckConfig list) \<times> 's"
  GetCheckConfigByName :: "string \<Rightarrow> 's \<Rightarrow> (error + CheckConfig option) \<times> 's"
  UpdateCheckConfig :: "CheckConfig \<Rightarrow> 's \<Rightarrow> error option \<times> 's"
  DeleteCheckConfigByName :: "string \<Rightarrow> 's \<Rightarrow> error option \<times> 's"

text \<open>
  \<open>json.Marshal\<close> on one check and on the slice of checks, \<open>json.Unmarshal\<close> into a
  fresh \<open>types.CheckConfig\<close>, and the resource's \<open>Validate\<close> method.
\<close>

record Codec =
  Marshal :: "CheckConfig \<Rightarrow> error + string"
  MarshalAll :: "CheckConfig list \<Rightarrow> error + string"
  Unmarshal :: "string \<Rightarrow> error + CheckConfig"
  Validate :: "CheckConfig \<Rightarrow> error option"

text \<open>
  What the handlers read of an \<open>*http.Request\<close>: \<open>r.Method\<close>, \<open>mux.Vars(r)\<close> and
  the outcome of \<open>ioutil.ReadAll(r.Body)\<close>.
\<close>

record Request =
  Method :: string
  Vars :: "string \<rightharpoonup> string"
  Body :: "error + string"

definition MethodGet :: string where "MethodGet = ''GET''"
definition MethodPost :: string where "MethodPost = ''POST''"
definition MethodPut :: string where "MethodPut = ''PUT''"
definition MethodDelete :: string where "MethodDelete = ''DELETE''"

definition StatusBadRequest :: nat where "StatusBadRequest = 400"
definition StatusInternalServerError :: nat where "StatusInternalServerError = 500"

text \<open>
  Everything a handler does to the outside, in the order it does it: the capability
  predicates it evaluates, the store methods it calls, and its calls on the
  \<open>http.ResponseWriter\<close>. \<open>Fprintf f\<close> is \<open>fmt.Fprintf(w, f)\<close>, the format \<open>f\<close>
  with no operands; \<open>HttpError msg code\<close> is \<open>http.Error(w, msg, code)\<close>;
  \<open>HttpNotFound\<close> is \<open>http.NotFound(w, r)\<close>; \<open>HeaderSet k v\<close> is
  \<open>w.Header().Set(k, v)\<close>; \<open>UnauthorizedAccessToResource\<close> is the call of that
  function of the authorization package on \<open>w\<close>; \<open>Panic\<close> is a run-time panic.
\<close>

datatype event =
    CallCanList
  | CallCanRead CheckConfig
  | CallCanCreate CheckConfig
  | CallCanUpdate CheckConfig
  | CallCanDelete
  | CallGetCheckConfigs
  | CallGetCheckConfigByName string
  | CallUpdateCheckConfig CheckConfig
  | CallDeleteCheckConfigByName string
  | UnauthorizedAccessToResource
  | HttpError string nat
  | HttpNotFound
  | HeaderSet string string
  | Fprintf string
  | Panic

fun is_ability_call :: "event \<Rightarrow> bool" where
  "is_ability_call CallCanList = True"
| "is_ability_call (CallCanRead c) = True"
| "is_ability_call (CallCanCreate c) = True"
| "is_ability_call (CallCanUpdate c) = True"
| "is_ability_call CallCanDelete = True"
| "is_ability_call e = False"

fun is_store_call :: "event \<Rightarrow> bool" where
  "is_store_call CallGetCheckConfigs = True"
| "is_store_call (CallGetCheckConfigByName n) = True"
| "is_store_call (CallUpdateCheckConfig c) = True"
| "is_store_call (CallDeleteCheckConfigByName n) = True"
| "is_store_call e = False"

fun is_store_write :: "event \<Rightarrow> bool" where
  "is_store_write (CallUpdateCheckConfig c) = True"
| "is_store_write (CallDeleteCheckConfigByName n) = True"
| "is_store_write e = False"

subsection \<open>rejectChecks\<close>

text \<open>
  \<^verbatim>\<open>
  func rejectChecks(records *[]*types.CheckConfig, predicate func(*types.CheckConfig) bool) {
      for i := 0; i < len(*records); i++ {
          if !predicate((*records)[i]) {
              *records = append((*records)[:i], (*records)[i+1:]...)
              i--
          }
      }
  }
  \<close>
  The cursor \<open>i\<close> is a Go \<open>int\<close>: the body's \<open>i--\<close> at \<open>i = 0\<close> gives \<open>-1\<close> and the
  post statement \<open>i++\<close> brings it back to \<open>0\<close>, so it is an \<open>int\<close> here and both
  steps are written out. Indexing outside the slice panics: that is \<open>None\<close>.
  The slice behind the pointer is returned instead of being overwritten.
\<close>

function rejectChecks_loop :: "('a \<Rightarrow> bool) \<Rightarrow> int \<Rightarrow> 'a list \<Rightarrow> 'a list option" where
  "rejectChecks_loop predicate i records =
     (if i < int (length records) then
        (if i < 0 then None
         else if \<not> predicate (records ! nat i) then
           rejectChecks_loop predicate ((i - 1) + 1)
             (take (nat i) records @ drop (nat (i + 1)) records)
         else rejectChecks_loop predicate (i + 1) records)
      else Some records)"
  by pat_completeness auto
termination
  by (relation "measure (\<lambda>(predicate, i, records). nat (int (length records) - i))") auto

declare rejectChecks_loop.simps [simp del]

definition rejectChecks :: "('a \<Rightarrow> bool) \<Rightarrow> 'a list \<Rightarrow> 'a list option" where
  "rejectChecks predicate records = rejectChecks_loop predicate 0 records"

subsection \<open>many: the handler of /checks\<close>

text \<open>
  \<^verbatim>\<open>
  abilities := authorization.Checks.WithContext(r.Context())
  if r.Method == http.MethodGet && !abilities.CanList() {
      authorization.UnauthorizedAccessToResource(w); return }
  checks, err := c.Store.GetCheckConfigs(r.Context())
  if err != nil { http.Error(w, err.Error(), http.StatusInternalServerError); return }
  rejectChecks(&checks, abilities.CanRead)
  checksBytes, err := json.Marshal(checks)
  if err != nil { http.Error(w, err.Error(), http.StatusInternalServerError) }
  w.Header().Set("Content-Type", "application/json")
  fmt.Fprintf(w, string(checksBytes))
  \<close>
  \<open>&&\<close> evaluates \<open>CanList\<close> only for a GET. The branch of the \<open>json.Marshal\<close> error
  has no \<open>return\<close>: control reaches the two statements after it, with \<open>checksBytes\<close>
  nil (the empty string). \<open>rejectChecks\<close> applies the predicate once to each fetched
  check, in order.
\<close>

definition many :: "'s Store \<Rightarrow> Codec \<Rightarrow> Abilities \<Rightarrow> Request \<Rightarrow> 's \<Rightarrow> event list \<times> 's" where
  "many st js abilities r s =
     (let asked = (if Method r = MethodGet then [CallCanList] else []) in
      if Method r = MethodGet \<and> \<not> CanList abilities then
        (asked @ [UnauthorizedAccessToResource], s)
      else
        (case GetCheckConfigs st s of
           (Inl err, s1) \<Rightarrow>
             (asked @ [CallGetCheckConfigs, HttpError err StatusInternalServerError], s1)
         | (Inr checks, s1) \<Rightarrow>
             (case rejectChecks (CanRead abilities) checks of
                None \<Rightarrow> (asked @ [CallGetCheckConfigs, Panic], s1)
              | Some kept \<Rightarrow>
                  (let (checksBytes, failed) =
                         (case MarshalAll js kept of
                            Inl err \<Rightarrow> ([], [HttpError err StatusInternalServerError])
                          | Inr bytes \<Rightarrow> (bytes, []))
                   in (asked @ [CallGetCheckConfigs] @ map CallCanRead checks @ failed @
                         [HeaderSet ''Content-Type'' ''application/json'', Fprintf checksBytes],
                       s1)))))"

subsection \<open>single: the handler of /checks/{name} and of POST /checks\<close>

text \<open>
  The GET arm of \<open>switch r.Method\<close>, entered with the check the lookup found:
  \<^verbatim>\<open>
  checkBytes, err := json.Marshal(check)
  if err != nil { http.Error(w, err.Error(), http.StatusInternalServerError); return }
  if !abilities.CanRead(check) { authorization.UnauthorizedAccessToResource(w); return }
  fmt.Fprintf(w, string(checkBytes))
  \<close>
\<close>

definition single_get :: "Codec \<Rightarrow> Abilities \<Rightarrow> CheckConfig \<Rightarrow> event list \<Rightarrow> 's \<Rightarrow> event list \<times> 's" where
  "single_get js abilities check log s =
     (case Marshal js check of
        Inl err \<Rightarrow> (log @ [HttpError err StatusInternalServerError], s)
      | Inr checkBytes \<Rightarrow>
          if \<not> CanRead abilities check then
            (log @ [CallCanRead check, UnauthorizedAccessToResource], s)
          else (log @ [CallCanRead check, Fprintf checkBytes], s))"

text \<open>
  The expressionless switch of the PUT/POST arm:
  \<^verbatim>\<open>
  switch {
  case check == nil && !abilities.CanCreate(newCheck):
      fallthrough
  case check != nil && !abilities.CanUpdate(newCheck):
      authorization.UnauthorizedAccessToResource(w)
      return
  }
  \<close>
  The result is the predicates evaluated and whether the unauthorized body is run.
  With \<open>check\<close> nil the first case evaluates \<open>CanCreate\<close>; when that case is false the
  second stops at \<open>check != nil\<close>. With \<open>check\<close> not nil the first case stops at
  \<open>check == nil\<close> and the second evaluates \<open>CanUpdate\<close>.
\<close>

definition upsert_switch :: "Abilities \<Rightarrow> CheckConfig option \<Rightarrow> CheckConfig \<Rightarrow> event list \<times> bool" where
  "upsert_switch abilities check newCheck =
     (case check of
        None \<Rightarrow> ([CallCanCreate newCheck], \<not> CanCreate abilities newCheck)
      | Some existing \<Rightarrow> ([CallCanUpdate newCheck], \<not> CanUpdate abilities newCheck))"

text \<open>
  The PUT/POST arm, with the value the local \<open>check\<close> holds on entry:
  \<^verbatim>\<open>
  newCheck := &types.CheckConfig{}
  bodyBytes, err := ioutil.ReadAll(r.Body)
  if err != nil { http.Error(w, err.Error(), http.StatusInternalServerError); return }
  err = json.Unmarshal(bodyBytes, newCheck)
  if err != nil { http.Error(w, err.Error(), http.StatusBadRequest); return }
  if err = newCheck.Validate(); err != nil {
      http.Error(w, err.Error(), http.StatusBadRequest); return }
  switch { ... }
  err = c.Store.UpdateCheckConfig(r.Context(), newCheck)
  if err != nil { http.Error(w, err.Error(), http.StatusInternalServerError); return }
  return
  \<close>
\<close>

definition single_upsert ::
  "'s Store \<Rightarrow> Codec \<Rightarrow> Abilities \<Rightarrow> Request \<Rightarrow> CheckConfig option \<Rightarrow> event list \<Rightarrow> 's \<Rightarrow> event list \<times> 's" where
  "single_upsert st js abilities r check log s =
     (case Body r of
        Inl err \<Rightarrow> (log @ [HttpError err StatusInternalServerError], s)
      | Inr bodyBytes \<Rightarrow>
          (case Unmarshal js bodyBytes of
             Inl err \<Rightarrow> (log @ [HttpError err StatusBadRequest], s)
           | Inr newCheck \<Rightarrow>
               (case Validate js newCheck of
                  Some err \<Rightarrow> (log @ [HttpError err StatusBadRequest], s)
                | None \<Rightarrow>
                    (case upsert_switch abilities check newCheck of
                       (asked, denied) \<Rightarrow>
                         if denied then (log @ asked @ [UnauthorizedAccessToResource], s)
                         else
                           (case UpdateCheckConfig st newCheck s of
                              (Some err, s1) \<Rightarrow>
                                (log @ asked @ [CallUpdateCheckConfig newCheck,
                                   HttpError err StatusInternalServerError], s1)
                            | (None, s1) \<Rightarrow>
                                (log @ asked @ [CallUpdateCheckConfig newCheck], s1))))))"

text \<open>
  The DELETE arm:
  \<^verbatim>\<open>
  err := c.Store.DeleteCheckConfigByName(r.Context(), name)
  if err != nil { http.Error(w, err.Error(), http.StatusInternalServerError); return }
  return
  \<close>
\<close>

definition single_delete :: "'s Store \<Rightarrow> string \<Rightarrow> event list \<Rightarrow> 's \<Rightarrow> event list \<times> 's" where
  "single_delete st name log s =
     (case DeleteCheckConfigByName st name s of
        (Some err, s1) \<Rightarrow>
          (log @ [CallDeleteCheckConfigByName name, HttpError err StatusInternalServerError], s1)
      | (None, s1) \<Rightarrow> (log @ [CallDeleteCheckConfigByName name], s1))"

text \<open>
  \<^verbatim>\<open>
  vars := mux.Vars(r)
  name, _ := vars["name"]
  method := r.Method
  abilities := authorization.Checks.WithContext(r.Context())
  if r.Method == http.MethodDelete && !abilities.CanDelete() {
      authorization.UnauthorizedAccessToResource(w); return }
  var ( check *types.CheckConfig; err error )
  if method == http.MethodGet || method == http.MethodDelete {
      check, err = c.Store.GetCheckConfigByName(r.Context(), name)
      if err != nil { http.Error(w, err.Error(), http.StatusInternalServerError); return }
      if check == nil { http.NotFound(w, r); return }
  }
  switch r.Method { case http.MethodGet: ...
                    case http.MethodPut, http.MethodPost: ...
                    case http.MethodDelete: ... }
  \<close>
  A key missing from \<open>vars\<close> reads as the empty string (\<open>path_name\<close>). The lookup runs for GET and
  DELETE only, and those two leave it with \<open>check\<close> not nil or not at all; every other
  method reaches the switch with \<open>check\<close> still nil, which is the \<open>None\<close> handed to
  \<open>single_upsert\<close>. A method with no arm in the switch does nothing more.
\<close>

definition path_name :: "Request \<Rightarrow> string" where
  "path_name r = (case Vars r ''name'' of None \<Rightarrow> [] | Some n \<Rightarrow> n)"

definition single :: "'s Store \<Rightarrow> Codec \<Rightarrow> Abilities \<Rightarrow> Request \<Rightarrow> 's \<Rightarrow> event list \<times> 's" where
  "single st js abilities r s =
     (let name = path_name r;
          method = Method r;
          asked = (if method = MethodDelete then [CallCanDelete] else [])
      in
      if method = MethodDelete \<and> \<not> CanDelete abilities then
        (asked @ [UnauthorizedAccessToResource], s)
      else if method = MethodGet \<or> method = MethodDelete then
        (case GetCheckConfigByName st name s of
           (Inl err, s1) \<Rightarrow>
             (asked @ [CallGetCheckConfigByName name,
                HttpError err StatusInternalServerError], s1)
         | (Inr None, s1) \<Rightarrow> (asked @ [CallGetCheckConfigByName name, HttpNotFound], s1)
         | (Inr (Some check), s1) \<Rightarrow>
             if method = MethodGet then
               single_get js abilities check (asked @ [CallGetCheckConfigByName name]) s1
             else single_delete st name (asked @ [CallGetCheckConfigByName name]) s1)
      else if method = MethodPut \<or> method = MethodPost then
        single_upsert st js abilities r None asked s
      else (asked, s))"

subsection \<open>Register: the routes\<close>

text \<open>
  \<^verbatim>\<open>
  r.HandleFunc("/checks", c.many).Methods(http.MethodGet)
  r.HandleFunc("/checks", c.single).Methods(http.MethodPost)
  r.HandleFunc("/checks/{name}", c.single).Methods(http.MethodGet, http.MethodPut,
                                                    http.MethodPost, http.MethodDelete)
  \<close>
  A route is a path template (literal segments and variables), its methods and its
  handler. The router runs the first registered route whose template and methods
  match; a variable matches one non-empty segment and is what \<open>mux.Vars\<close> returns.
\<close>

datatype handler = Many | Single

datatype segment = Lit string | Var string

type_synonym route = "segment list \<times> string list \<times> handler"

definition Register :: "route list" where
  "Register =
     [([Lit ''checks''], [MethodGet], Many),
      ([Lit ''checks''], [MethodPost], Single),
      ([Lit ''checks'', Var ''name''], [MethodGet, MethodPut, MethodPost, MethodDelete], Single)]"

fun match_path :: "segment list \<Rightarrow> string list \<Rightarrow> (string \<times> string) list option" where
  "match_path [] [] = Some []"
| "match_path (Lit l # template) (x # path) = (if l = x then match_path template path else None)"
| "match_path (Var v # template) (x # path) =
     (if x = [] then None
      else (case match_path template path of None \<Rightarrow> None | Some vars \<Rightarrow> Some ((v, x) # vars)))"
| "match_path template path = None"

fun match_route :: "route list \<Rightarrow> string \<Rightarrow> string list \<Rightarrow> (handler \<times> (string \<times> string) list) option" where
  "match_route [] method path = None"
| "match_route ((template, methods, h) # routes) method path =
     (case match_path template path of
        None \<Rightarrow> match_route routes method path
      | Some vars \<Rightarrow>
          if method \<in> set methods then Some (h, vars) else match_route routes method path)"

definition ServeHTTP ::
  "'s Store \<Rightarrow> Codec \<Rightarrow> Abilities \<Rightarrow> string \<Rightarrow> string list \<Rightarrow> error + string \<Rightarrow> 's \<Rightarrow> (event list \<times> 's) option" where
  "ServeHTTP st js abilities method path body s =
     (case match_route Register method path of
        None \<Rightarrow> None
      | Some (h, vars) \<Rightarrow>
          (let r = \<lparr>Method = method, Vars = map_of vars, Body = body\<rparr> in
           case h of
             Many \<Rightarrow> Some (many st js abilities r s)
           | Single \<Rightarrow> Some (single st js abilities r s)))"

subsection \<open>A store, a codec and callers to run the handlers on\<close>

text \<open>
  The store behind \<open>store.Store\<close> is not among the sources; the handlers above take
  any. To run them, \<open>mem_store\<close> is a store that keeps the checks in a list in
  insertion order, keyed by name, and never fails.
\<close>

definition mem_store :: "CheckConfig list Store" where
  "mem_store =
     \<lparr>GetCheckConfigs = (\<lambda>s. (Inr s, s)),
      GetCheckConfigByName = (\<lambda>name s. (Inr (find (\<lambda>c. Name c = name) s), s)),
      UpdateCheckConfig = (\<lambda>c s. (None,
         if find (\<lambda>d. Name d = Name c) s = None then s @ [c]
         else map (\<lambda>d. if Name d = Name c then c else d) s)),
      DeleteCheckConfigByName = (\<lambda>name s. (None, filter (\<lambda>c. Name c \<noteq> name) s))\<rparr>"

text \<open>
  Two stores that fail: \<open>down_store\<close> cannot be read, \<open>readonly_store\<close> reads as
  \<open>mem_store\<close> does and refuses every write.
\<close>

definition down_store :: "CheckConfig list Store" where
  "down_store =
     mem_store\<lparr>GetCheckConfigs := (\<lambda>s. (Inl ''store unavailable'', s)),
               GetCheckConfigByName := (\<lambda>name s. (Inl ''store unavailable'', s))\<rparr>"

definition readonly_store :: "CheckConfig list Store" where
  "readonly_store =
     mem_store\<lparr>UpdateCheckConfig := (\<lambda>c s. (Some ''store is read-only'', s)),
               DeleteCheckConfigByName := (\<lambda>name s. (Some ''store is read-only'', s))\<rparr>"

text \<open>
  The wire format and \<open>Validate\<close> belong to packages outside the sources; the
  handlers above take any. To run them, \<open>toy_codec\<close> writes a check as
  \<open>name:payload\<close>, refuses a body with no colon, and its validation refuses an empty
  name. \<open>broken_codec\<close> differs in failing to serialize a collection.
\<close>

definition toy_codec :: Codec where
  "toy_codec =
     \<lparr>Marshal = (\<lambda>c. Inr (Name c @ '':'' @ Payload c)),
      MarshalAll = (\<lambda>cs. Inr (concat (map (\<lambda>c. Name c @ '':'' @ Payload c @ '';'') cs))),
      Unmarshal = (\<lambda>b. if CHR '':'' \<in> set b
                        then Inr \<lparr>Name = takeWhile (\<lambda>x. x \<noteq> CHR '':'') b,
                                  Payload = tl (dropWhile (\<lambda>x. x \<noteq> CHR '':'') b)\<rparr>
                        else Inl ''unexpected end of JSON input''),
      Validate = (\<lambda>c. if Name c = [] then Some ''name cannot be empty'' else None)\<rparr>"

definition broken_codec :: Codec where
  "broken_codec = toy_codec\<lparr>MarshalAll := (\<lambda>cs. Inl ''json: unsupported value'')\<rparr>"

definition check_a :: CheckConfig where "check_a = \<lparr>Name = ''a'', Payload = ''true''\<rparr>"
definition check_b :: CheckConfig where "check_b = \<lparr>Name = ''b'', Payload = ''uptime''\<rparr>"
definition check_c :: CheckConfig where "check_c = \<lparr>Name = ''c'', Payload = ''df''\<rparr>"
definition check_y :: CheckConfig where "check_y = \<lparr>Name = ''y'', Payload = ''old''\<rparr>"
definition check_y' :: CheckConfig where "check_y' = \<lparr>Name = ''y'', Payload = ''new''\<rparr>"

text \<open>Callers: one allowed everything, one allowed nothing, one allowed everything but updates.\<close>

definition allow_all :: Abilities where
  "allow_all = \<lparr>CanList = True, CanRead = (\<lambda>c. True), CanCreate = (\<lambda>c. True),
                 CanUpdate = (\<lambda>c. True), CanDelete = True\<rparr>"

definition deny_all :: Abilities where
  "deny_all = \<lparr>CanList = False, CanRead = (\<lambda>c. False), CanCreate = (\<lambda>c. False),
                CanUpdate = (\<lambda>c. False), CanDelete = False\<rparr>"

definition no_update :: Abilities where
  "no_update = allow_all\<lparr>CanUpdate := (\<lambda>c. False)\<rparr>"

definition read_a_c :: Abilities where
  "read_a_c = allow_all\<lparr>CanRead := (\<lambda>c. Name c = ''a'' \<or> Name c = ''c'')\<rparr>"

text \<open>Requests: a method, the path variables the router bound, and the body read.\<close>

definition request :: "string \<Rightarrow> (string \<times> string) list \<Rightarrow> string \<Rightarrow> Request" where
  "request method vars body = \<lparr>Method = method, Vars = map_of vars, Body = Inr body\<rparr>"



subsection \<open>What fmt.Fprintf writes for a format with no operands\<close>



section \<open>Properties\<close>

lemmas http_consts = MethodGet_def MethodPost_def MethodPut_def MethodDelete_def
  StatusBadRequest_def StatusInternalServerError_def

lemmas handler_defs = single_def single_get_def single_upsert_def single_delete_def
  upsert_switch_def path_name_def Let_def

lemmas fixtures = mem_store_def toy_codec_def check_a_def check_y_def check_y'_def
  allow_all_def deny_all_def request_def

subsection \<open>The loop of rejectChecks\<close>

lemma rejectChecks_loop_done:
  "length records \<le> n \<Longrightarrow> rejectChecks_loop predicate (int n) records = Some records"
  by (subst rejectChecks_loop.simps) simp

lemma rejectChecks_loop_keep:
  "n < length records \<Longrightarrow> predicate (records ! n) \<Longrightarrow>
   rejectChecks_loop predicate (int n) records = rejectChecks_loop predicate (int (Suc n)) records"
  by (subst rejectChecks_loop.simps) (simp add: add.commute)

lemma rejectChecks_loop_drop:
  "n < length records \<Longrightarrow> \<not> predicate (records ! n) \<Longrightarrow>
   rejectChecks_loop predicate (int n) records =
     rejectChecks_loop predicate (int n) (take n records @ drop (Suc n) records)"
  by (subst rejectChecks_loop.simps) (simp add: nat_add_distrib)

text \<open>
  With the cursor at \<open>n\<close>, the elements before it are final and the rest is still to be
  filtered. Either the cursor advances or the slice shrinks, so twice the length minus
  the cursor decreases.
\<close>

lemma rejectChecks_loop_filter:
  "n \<le> length records \<Longrightarrow>
   rejectChecks_loop predicate (int n) records =
     Some (take n records @ filter predicate (drop n records))"
proof (induction "2 * length records - n" arbitrary: n records rule: less_induct)
  case less
  show ?case
  proof (cases "n < length records")
    case False
    with less.prems show ?thesis by (simp add: rejectChecks_loop_done)
  next
    case True
    have dr: "drop n records = records ! n # drop (Suc n) records"
      using True by (simp add: Cons_nth_drop_Suc)
    show ?thesis
    proof (cases "predicate (records ! n)")
      case keep: True
      have "rejectChecks_loop predicate (int n) records
              = rejectChecks_loop predicate (int (Suc n)) records"
        using True keep by (rule rejectChecks_loop_keep)
      also have "\<dots> = Some (take (Suc n) records @ filter predicate (drop (Suc n) records))"
        using True by (intro less.hyps) auto
      also have "take (Suc n) records @ filter predicate (drop (Suc n) records)
            = take n records @ filter predicate (drop n records)"
        using True keep by (simp add: dr take_Suc_conv_app_nth)
      finally show ?thesis .
    next
      case reject: False
      let ?r = "take n records @ drop (Suc n) records"
      have "rejectChecks_loop predicate (int n) records = rejectChecks_loop predicate (int n) ?r"
        using True reject by (rule rejectChecks_loop_drop)
      also have "\<dots> = Some (take n ?r @ filter predicate (drop n ?r))"
        using True by (intro less.hyps) auto
      also have "take n ?r @ filter predicate (drop n ?r)
            = take n records @ filter predicate (drop n records)"
        using True reject by (simp add: dr)
      finally show ?thesis .
    qed
  qed
qed

lemma rejectChecks_eq_filter: "rejectChecks predicate records = Some (filter predicate records)"
  using rejectChecks_loop_filter [of 0 records predicate] by (simp add: rejectChecks_def)

text \<open>
  Claim C3: for every list of resources and every read predicate, \<open>rejectChecks\<close> leaves
  exactly the elements the predicate holds for, in their original order, each once:
  it never panics and its result is the list \<open>filter\<close> computes, also when several
  neighbouring elements fail the predicate.
\<close>

theorem rejectChecks_is_stable_filter:
  "rejectChecks predicate records = Some (filter predicate records)"
  using rejectChecks_loop_filter [of 0 records predicate] by (simp add: rejectChecks_def)

text \<open>Scenario A: of the checks a, b and c the caller may read a and c.\<close>

lemma rejectChecks_scenario_A:
  "rejectChecks (CanRead read_a_c) [check_a, check_b, check_c] = Some [check_a, check_c]"
  by (simp add: rejectChecks_eq_filter read_a_c_def check_b_def check_c_def fixtures)

subsection \<open>The handlers, method by method\<close>

lemma many_GET_allowed:
  assumes "Method r = MethodGet" and "CanList abilities"
      and "GetCheckConfigs st s = (Inr checks, s1)"
  shows "many st js abilities r s =
           ([CallCanList, CallGetCheckConfigs] @ map CallCanRead checks @
            (case MarshalAll js (filter (CanRead abilities) checks) of
               Inl err \<Rightarrow>
                 [HttpError err StatusInternalServerError,
                  HeaderSet ''Content-Type'' ''application/json'', Fprintf []]
             | Inr bytes \<Rightarrow> [HeaderSet ''Content-Type'' ''application/json'', Fprintf bytes]),
            s1)"
  using assms by (simp add: many_def rejectChecks_eq_filter split: sum.splits)

lemma single_PUT_POST:
  "Method r = MethodPut \<or> Method r = MethodPost \<Longrightarrow>
   single st js abilities r s = single_upsert st js abilities r None [] s"
  by (auto simp: single_def http_consts)

lemma single_GET:
  "Method r = MethodGet \<Longrightarrow>
   single st js abilities r s =
     (case GetCheckConfigByName st (path_name r) s of
        (Inl err, s1) \<Rightarrow>
          ([CallGetCheckConfigByName (path_name r), HttpError err StatusInternalServerError], s1)
      | (Inr None, s1) \<Rightarrow> ([CallGetCheckConfigByName (path_name r), HttpNotFound], s1)
      | (Inr (Some check), s1) \<Rightarrow>
          single_get js abilities check [CallGetCheckConfigByName (path_name r)] s1)"
  by (simp add: single_def http_consts Let_def split: prod.splits sum.splits option.splits)

lemma single_DELETE_denied:
  "Method r = MethodDelete \<Longrightarrow> \<not> CanDelete abilities \<Longrightarrow>
   single st js abilities r s = ([CallCanDelete, UnauthorizedAccessToResource], s)"
  by (simp add: single_def http_consts)

lemma single_DELETE_allowed:
  "Method r = MethodDelete \<Longrightarrow> CanDelete abilities \<Longrightarrow>
   single st js abilities r s =
     (case GetCheckConfigByName st (path_name r) s of
        (Inl err, s1) \<Rightarrow>
          ([CallCanDelete, CallGetCheckConfigByName (path_name r),
            HttpError err StatusInternalServerError], s1)
      | (Inr None, s1) \<Rightarrow>
          ([CallCanDelete, CallGetCheckConfigByName (path_name r), HttpNotFound], s1)
      | (Inr (Some check), s1) \<Rightarrow>
          single_delete st (path_name r)
            [CallCanDelete, CallGetCheckConfigByName (path_name r)] s1)"
  by (simp add: single_def http_consts Let_def split: prod.splits sum.splits option.splits)

lemma single_other:
  "Method r \<noteq> MethodGet \<Longrightarrow> Method r \<noteq> MethodDelete \<Longrightarrow> Method r \<noteq> MethodPut \<Longrightarrow>
   Method r \<noteq> MethodPost \<Longrightarrow> single st js abilities r s = ([], s)"
  by (simp add: single_def Let_def)

lemma method_cases:
  obtains (get) "Method r = MethodGet"
    | (del) "Method r = MethodDelete"
    | (ups) "Method r = MethodPut \<or> Method r = MethodPost"
    | (other) "Method r \<noteq> MethodGet" "Method r \<noteq> MethodDelete" "Method r \<noteq> MethodPut"
        "Method r \<noteq> MethodPost"
  by blast

lemma store_write_is_store_call: "is_store_write e \<Longrightarrow> is_store_call e"
  by (cases e) simp_all

lemma no_store_call_no_write:
  "filter is_store_call xs = [] \<Longrightarrow> filter is_store_write xs = []"
  by (auto simp: filter_empty_conv dest: store_write_is_store_call)

lemma single_get_writes:
  "filter is_store_write (fst (single_get js abilities check log s)) = filter is_store_write log"
  by (simp add: single_get_def split: sum.splits)

lemma single_delete_unauthorized:
  "UnauthorizedAccessToResource \<in> set (fst (single_delete st name log s))
     \<longleftrightarrow> UnauthorizedAccessToResource \<in> set log"
  by (simp add: single_delete_def split: prod.splits option.splits)

text \<open>
  The PUT/POST arm answers unauthorized only from its switch, and then it has called
  no store method and hands the store back as it got it.
\<close>

lemma single_upsert_unauthorized:
  assumes "UnauthorizedAccessToResource \<in> set (fst (single_upsert st js abilities r check log s))"
      and "UnauthorizedAccessToResource \<notin> set log"
  shows "filter is_store_call (fst (single_upsert st js abilities r check log s))
           = filter is_store_call log
       \<and> snd (single_upsert st js abilities r check log s) = s"
proof (cases "Body r")
  case (Inl err)
  with assms show ?thesis by (simp add: single_upsert_def)
next
  case body: (Inr bodyBytes)
  show ?thesis
  proof (cases "Unmarshal js bodyBytes")
    case (Inl err)
    with assms body show ?thesis by (simp add: single_upsert_def)
  next
    case dec: (Inr newCheck)
    show ?thesis
    proof (cases "Validate js newCheck")
      case (Some err)
      with assms body dec show ?thesis by (simp add: single_upsert_def)
    next
      case None
      obtain asked denied where sw: "upsert_switch abilities check newCheck = (asked, denied)"
        by (cases "upsert_switch abilities check newCheck")
      have asked: "filter is_store_call asked = []" "UnauthorizedAccessToResource \<notin> set asked"
        using sw by (auto simp: upsert_switch_def split: option.splits)
      show ?thesis
      proof (cases denied)
        case True
        with body dec None sw asked show ?thesis by (simp add: single_upsert_def)
      next
        case False
        with assms body dec None sw asked show ?thesis
          by (simp add: single_upsert_def split: prod.splits option.splits)
      qed
    qed
  qed
qed

lemma single_upsert_denying:
  assumes "\<forall>c. \<not> CanCreate abilities c"
  shows "filter is_store_write (fst (single_upsert st js abilities r None log s))
           = filter is_store_write log"
  using assms
  by (simp add: single_upsert_def upsert_switch_def split: sum.splits option.splits)

lemma single_unauthorized_cases:
  assumes "UnauthorizedAccessToResource \<in> set (fst (single st js abilities r s))"
  shows "filter is_store_write (fst (single st js abilities r s)) = []
       \<and> (Method r \<noteq> MethodGet \<longrightarrow>
            filter is_store_call (fst (single st js abilities r s)) = []
            \<and> snd (single st js abilities r s) = s)"
proof (cases r rule: method_cases)
  case get
  then show ?thesis
    by (simp add: single_GET single_get_writes split: prod.splits sum.splits option.splits)
next
  case del
  show ?thesis
  proof (cases "CanDelete abilities")
    case False
    with del show ?thesis by (simp add: single_DELETE_denied http_consts)
  next
    case True
    with del assms have False
      by (simp add: single_DELETE_allowed single_delete_unauthorized
            split: prod.splits sum.splits option.splits)
    then show ?thesis ..
  qed
next
  case ups
  have eq: "single st js abilities r s = single_upsert st js abilities r None [] s"
    using ups by (rule single_PUT_POST)
  have "filter is_store_call (fst (single_upsert st js abilities r None [] s)) = []
      \<and> snd (single_upsert st js abilities r None [] s) = s"
    using single_upsert_unauthorized [of st js abilities r None "[]" s] assms eq by simp
  then show ?thesis using eq by (simp add: no_store_call_no_write)
next
  case other
  with assms show ?thesis by (simp add: single_other)
qed

lemma single_denying_context:
  assumes "\<not> CanDelete abilities" and "\<forall>c. \<not> CanCreate abilities c"
  shows "filter is_store_write (fst (single st js abilities r s)) = []"
proof (cases r rule: method_cases)
  case get
  then show ?thesis
    by (simp add: single_GET single_get_writes split: prod.splits sum.splits option.splits)
next
  case del
  with assms show ?thesis by (simp add: single_DELETE_denied)
next
  case ups
  then show ?thesis using single_upsert_denying [OF assms(2), of st js r "[]" s]
    by (simp add: single_PUT_POST)
next
  case other
  then show ?thesis by (simp add: single_other)
qed

lemma upsert_arm_events:
  assumes "Method r = MethodPut \<or> Method r = MethodPost"
      and "e \<in> set (fst (single st js abilities r s))"
  shows "e \<noteq> CallGetCheckConfigByName n \<and> e \<noteq> CallCanUpdate c"
  using assms
  by (auto simp: single_PUT_POST single_upsert_def upsert_switch_def
           split: sum.splits option.splits prod.splits if_splits)

lemma single_sets_no_header: "HeaderSet k v \<notin> set (fst (single st js abilities r s))"
proof (cases r rule: method_cases)
  case get
  then show ?thesis
    by (simp add: single_GET single_get_def split: prod.splits sum.splits option.splits)
next
  case del
  then show ?thesis
    by (cases "CanDelete abilities")
       (simp_all add: single_DELETE_denied single_DELETE_allowed single_delete_def
          split: prod.splits sum.splits option.splits)
next
  case ups
  then show ?thesis
    by (auto simp: single_PUT_POST single_upsert_def upsert_switch_def
             split: sum.splits option.splits prod.splits if_splits)
next
  case other
  then show ?thesis by (simp add: single_other)
qed

text \<open>POST /checks is routed to \<open>single\<close> with no path variable and runs the upsert arm.\<close>

lemma collection_POST_is_create:
  "ServeHTTP st js abilities MethodPost [''checks''] body s =
     Some (single_upsert st js abilities
             \<lparr>Method = MethodPost, Vars = Map.empty, Body = body\<rparr> None [] s)"
proof -
  have "match_route Register MethodPost [''checks''] = Some (Single, [])"
    by (simp add: Register_def http_consts)
  then show ?thesis by (simp add: ServeHTTP_def single_PUT_POST)
qed

subsection \<open>Create or update: which capability an upsert consults\<close>

text \<open>
  Claim C1: an upsert through PUT /checks/{name} looks the name up in the store and
  consults \<open>CanUpdate\<close> when the resource exists, \<open>CanCreate\<close> when it does not. The
  handler does otherwise. At PUT /checks/y with the check y in the store and a caller who
  may create but not update, it calls no lookup, evaluates \<open>CanCreate\<close> alone and
  overwrites y: the lookup runs for GET and DELETE only, so the \<open>CanUpdate\<close> case of
  the switch is never reached (\<open>upsert_arm_events\<close> has this for every PUT and POST).
\<close>

theorem put_existing_checks_create_only:
  "\<not> CanUpdate no_update check_y'
   \<and> GetCheckConfigByName mem_store ''y'' [check_y] = (Inr (Some check_y), [check_y])
   \<and> single mem_store toy_codec no_update (request MethodPut [(''name'', ''y'')] ''y:new'')
         [check_y]
       = ([CallCanCreate check_y', CallUpdateCheckConfig check_y'], [check_y'])"
  by (simp add: handler_defs http_consts no_update_def fixtures)

subsection \<open>Delete\<close>

text \<open>
  Claim C2, as stated: a DELETE that passes the delete capability check deletes by name
  with no existence check of the controller's own and never answers 404. That is false:
  for a caller who may delete, DELETE /checks/missing looks the name up, answers not
  found and never calls the store's delete.
\<close>

theorem delete_missing_is_not_found:
  "CanDelete allow_all
   \<and> single mem_store toy_codec allow_all (request MethodDelete [(''name'', ''missing'')] [])
         [check_y]
       = ([CallCanDelete, CallGetCheckConfigByName ''missing'', HttpNotFound], [check_y])"
  by (simp add: handler_defs http_consts fixtures)

text \<open>
  Claim C2, amended: a DELETE that passes the delete capability check first looks the
  name up in the store. A lookup error is answered with 500 and a miss with 404, both
  without a delete call; only when the resource exists is it deleted by name, and an
  error of that delete is answered with 500. So the failures of DELETE /checks/{name}
  are the authorization error, 404 and 500.
\<close>

theorem delete_resource_outcomes:
  assumes "Method r = MethodDelete" and "CanDelete abilities"
  shows "(GetCheckConfigByName st (path_name r) s = (Inl err, s1) \<longrightarrow>
            single st js abilities r s
              = ([CallCanDelete, CallGetCheckConfigByName (path_name r),
                  HttpError err StatusInternalServerError], s1))
       \<and> (GetCheckConfigByName st (path_name r) s = (Inr None, s1) \<longrightarrow>
            single st js abilities r s
              = ([CallCanDelete, CallGetCheckConfigByName (path_name r), HttpNotFound], s1))
       \<and> (GetCheckConfigByName st (path_name r) s = (Inr (Some check), s1)
            \<and> DeleteCheckConfigByName st (path_name r) s1 = (None, s2) \<longrightarrow>
            single st js abilities r s
              = ([CallCanDelete, CallGetCheckConfigByName (path_name r),
                  CallDeleteCheckConfigByName (path_name r)], s2))
       \<and> (GetCheckConfigByName st (path_name r) s = (Inr (Some check), s1)
            \<and> DeleteCheckConfigByName st (path_name r) s1 = (Some err, s2) \<longrightarrow>
            single st js abilities r s
              = ([CallCanDelete, CallGetCheckConfigByName (path_name r),
                  CallDeleteCheckConfigByName (path_name r),
                  HttpError err StatusInternalServerError], s2))"
  using assms by (simp add: single_def single_delete_def http_consts Let_def)

text \<open>
  The four outcomes on DELETE /checks/y for a caller who may delete: the store cannot be
  read, y is missing, y is there, y is there and the store refuses the delete.
\<close>

theorem delete_resource_outcomes_witness:
  "Method (request MethodDelete [(''name'', ''y'')] []) = MethodDelete
   \<and> CanDelete allow_all
   \<and> single down_store toy_codec allow_all (request MethodDelete [(''name'', ''y'')] []) [check_y]
       = ([CallCanDelete, CallGetCheckConfigByName ''y'',
           HttpError ''store unavailable'' StatusInternalServerError], [check_y])
   \<and> single mem_store toy_codec allow_all (request MethodDelete [(''name'', ''y'')] []) [check_a]
       = ([CallCanDelete, CallGetCheckConfigByName ''y'', HttpNotFound], [check_a])
   \<and> single mem_store toy_codec allow_all (request MethodDelete [(''name'', ''y'')] [])
         [check_a, check_y]
       = ([CallCanDelete, CallGetCheckConfigByName ''y'', CallDeleteCheckConfigByName ''y''],
          [check_a])
   \<and> single readonly_store toy_codec allow_all (request MethodDelete [(''name'', ''y'')] [])
         [check_y]
       = ([CallCanDelete, CallGetCheckConfigByName ''y'', CallDeleteCheckConfigByName ''y'',
           HttpError ''store is read-only'' StatusInternalServerError], [check_y])"
  using delete_resource_outcomes [where r = "request MethodDelete [(''name'', ''y'')] []"
          and abilities = allow_all and st = down_store and js = toy_codec
          and s = "[check_y]" and ?s1.0 = "[check_y]" and err = "''store unavailable''"]
        delete_resource_outcomes [where r = "request MethodDelete [(''name'', ''y'')] []"
          and abilities = allow_all and st = mem_store and js = toy_codec
          and s = "[check_a]" and ?s1.0 = "[check_a]"]
        delete_resource_outcomes [where r = "request MethodDelete [(''name'', ''y'')] []"
          and abilities = allow_all and st = mem_store and js = toy_codec
          and s = "[check_a, check_y]" and ?s1.0 = "[check_a, check_y]" and check = check_y
          and ?s2.0 = "[check_a]"]
        delete_resource_outcomes [where r = "request MethodDelete [(''name'', ''y'')] []"
          and abilities = allow_all and st = readonly_store and js = toy_codec
          and s = "[check_y]" and ?s1.0 = "[check_y]" and check = check_y
          and ?s2.0 = "[check_y]" and err = "''store is read-only''"]
  by (simp add: path_name_def down_store_def readonly_store_def fixtures)

subsection \<open>A failed serialization of the collection\<close>

text \<open>
  Claim C4: when serializing the filtered collection fails, the list handler reports the
  internal error and stops, with nothing written to the response after it. The handler
  does otherwise: the error branch has no \<open>return\<close>, so after \<open>http.Error\<close> it still
  sets the Content-Type header and calls \<open>fmt.Fprintf\<close> with the empty serialization.
\<close>

theorem many_marshal_error_falls_through:
  "MarshalAll broken_codec [check_a] = Inl ''json: unsupported value''
   \<and> many mem_store broken_codec allow_all (request MethodGet [] []) [check_a]
       = ([CallCanList, CallGetCheckConfigs, CallCanRead check_a,
           HttpError ''json: unsupported value'' StatusInternalServerError,
           HeaderSet ''Content-Type'' ''application/json'', Fprintf []], [check_a])"
  by (simp add: many_def rejectChecks_eq_filter http_consts broken_codec_def fixtures)

subsection \<open>Authorization before mutation\<close>

text \<open>
  Claim C5: when the relevant capability check of an upsert (create for a new resource,
  update for an existing one) or of a delete fails, the request writes nothing to the
  store, and an existing resource is left as it was. The handler does otherwise for an
  existing resource. At PUT /checks/y with the checks a and y in the store and a caller
  who may create but not update, it never asks \<open>CanUpdate\<close>, asks \<open>CanCreate\<close>
  instead, and the store's upsert rewrites y. The cause is the one of claim C1: no
  lookup on PUT and POST. What does hold is in \<open>single_DELETE_denied\<close> (a denied
  delete returns before any store call), \<open>single_unauthorized_cases\<close> (an unauthorized
  answer is never preceded by a store write) and \<open>single_denying_context\<close> (a caller
  denied delete and every create causes no store write).
\<close>

theorem denied_update_still_writes:
  "GetCheckConfigByName mem_store ''y'' [check_a, check_y]
     = (Inr (Some check_y), [check_a, check_y])
   \<and> \<not> CanUpdate no_update check_y'
   \<and> ServeHTTP mem_store toy_codec no_update MethodPut [''checks'', ''y''] (Inr ''y:new'')
         [check_a, check_y]
       = Some ([CallCanCreate check_y', CallUpdateCheckConfig check_y'], [check_a, check_y'])
   \<and> filter is_store_write [CallCanCreate check_y', CallUpdateCheckConfig check_y']
       = [CallUpdateCheckConfig check_y']"
  by (simp add: ServeHTTP_def Register_def handler_defs http_consts no_update_def fixtures)

subsection \<open>Validation before authorization and storage\<close>

text \<open>
  Claim C6: an upsert (PUT or POST) whose body does not decode, or decodes to a resource
  that fails its own validation, is answered with the error and status 400 and nothing
  else happens: the trace is that one response, so no capability predicate is evaluated,
  no store method is called and the store is unchanged.
\<close>

theorem invalid_body_is_rejected_first:
  assumes "Method r = MethodPut \<or> Method r = MethodPost"
      and "Body r = Inr bodyBytes"
      and "Unmarshal js bodyBytes = Inl err
           \<or> (\<exists>newCheck. Unmarshal js bodyBytes = Inr newCheck \<and> Validate js newCheck = Some err)"
  shows "single st js abilities r s = ([HttpError err StatusBadRequest], s)
       \<and> filter is_ability_call (fst (single st js abilities r s)) = []
       \<and> filter is_store_call (fst (single st js abilities r s)) = []"
proof -
  have "single st js abilities r s = single_upsert st js abilities r None [] s"
    using assms(1) by (rule single_PUT_POST)
  also have "\<dots> = ([HttpError err StatusBadRequest], s)"
    using assms(2,3) by (auto simp: single_upsert_def)
  finally show ?thesis by simp
qed

text \<open>A PUT whose body has no colon, and a POST whose body decodes to an empty name.\<close>

theorem invalid_body_is_rejected_first_witness:
  "(Method (request MethodPut [(''name'', ''z'')] ''garbage'') = MethodPut
     \<and> Body (request MethodPut [(''name'', ''z'')] ''garbage'') = Inr ''garbage''
     \<and> Unmarshal toy_codec ''garbage'' = Inl ''unexpected end of JSON input''
     \<and> single mem_store toy_codec allow_all (request MethodPut [(''name'', ''z'')] ''garbage'')
           [check_y]
         = ([HttpError ''unexpected end of JSON input'' StatusBadRequest], [check_y]))
   \<and> (Method (request MethodPost [] '':df'') = MethodPost
     \<and> Unmarshal toy_codec '':df'' = Inr \<lparr>Name = [], Payload = ''df''\<rparr>
     \<and> Validate toy_codec \<lparr>Name = [], Payload = ''df''\<rparr> = Some ''name cannot be empty''
     \<and> single mem_store toy_codec allow_all (request MethodPost [] '':df'') [check_y]
         = ([HttpError ''name cannot be empty'' StatusBadRequest], [check_y]))"
  using invalid_body_is_rejected_first [where r = "request MethodPut [(''name'', ''z'')] ''garbage''"
          and bodyBytes = "''garbage''" and js = toy_codec
          and err = "''unexpected end of JSON input''" and st = mem_store
          and abilities = allow_all and s = "[check_y]"]
        invalid_body_is_rejected_first [where r = "request MethodPost [] '':df''"
          and bodyBytes = "'':df''" and js = toy_codec
          and err = "''name cannot be empty''" and st = mem_store
          and abilities = allow_all and s = "[check_y]"]
  by (simp add: toy_codec_def request_def)

subsection \<open>Reading one resource\<close>





subsection \<open>Listing without the list capability\<close>

text \<open>
  Claim C8: a list request (GET /checks) by a caller without the list capability is
  answered unauthorized and the store is not touched: the trace is the \<open>CanList\<close>
  query and the unauthorized response, with no call of the store, whose state is
  returned as it was. This holds through the router and for the handler on any GET.
\<close>

theorem list_denied_no_store_access:
  assumes "\<not> CanList abilities"
  shows "ServeHTTP st js abilities MethodGet [''checks''] body s
           = Some ([CallCanList, UnauthorizedAccessToResource], s)
       \<and> (Method r = MethodGet \<longrightarrow>
            many st js abilities r s = ([CallCanList, UnauthorizedAccessToResource], s)
            \<and> filter is_store_call (fst (many st js abilities r s)) = [])"
  using assms by (simp add: ServeHTTP_def Register_def many_def http_consts)

theorem list_denied_no_store_access_witness:
  "\<not> CanList deny_all
   \<and> ServeHTTP mem_store toy_codec deny_all MethodGet [''checks''] (Inr []) [check_a]
       = Some ([CallCanList, UnauthorizedAccessToResource], [check_a])
   \<and> Method (request MethodGet [] []) = MethodGet
   \<and> many mem_store toy_codec deny_all (request MethodGet [] []) [check_a]
       = ([CallCanList, UnauthorizedAccessToResource], [check_a])"
  using list_denied_no_store_access [where abilities = deny_all and st = mem_store
          and js = toy_codec and body = "Inr []" and s = "[check_a]"
          and r = "request MethodGet [] []"]
  by (simp add: deny_all_def request_def)

subsection \<open>The Content-Type of a response with a body\<close>

text \<open>
  Claim C9: both successful responses with a body, the collection of GET /checks and
  the resource of GET /checks/{name}, carry the Content-Type application/json. The list
  handler sets it; the single-resource handler does not: a successful GET /checks/a
  writes the body and sets no header (\<open>single_sets_no_header\<close>: it never sets one).
\<close>

theorem single_get_sets_no_content_type:
  "single mem_store toy_codec allow_all (request MethodGet [(''name'', ''a'')] []) [check_a]
     = ([CallGetCheckConfigByName ''a'', CallCanRead check_a, Fprintf ''a:true''], [check_a])
   \<and> many mem_store toy_codec allow_all (request MethodGet [] []) [check_a]
     = ([CallCanList, CallGetCheckConfigs, CallCanRead check_a,
         HeaderSet ''Content-Type'' ''application/json'', Fprintf ''a:true;''], [check_a])"
  by (simp add: handler_defs many_def rejectChecks_eq_filter http_consts fixtures)

subsection \<open>The path name and the body's name\<close>

text \<open>
  Claim C10: the upsert arm never uses the {name} of the path. For PUT and POST the
  handler's trace and resulting store are the same whatever the path variables are, and
  for a body that decodes, validates and may be created the one store call is the upsert
  of the decoded resource, stored under the name the body carries, also when that name
  differs from the path's.
\<close>

theorem upsert_ignores_path_name:
  assumes "Method r = MethodPut \<or> Method r = MethodPost"
  shows "single st js abilities (r\<lparr>Vars := vars\<rparr>) s = single st js abilities r s
       \<and> (Body r = Inr bodyBytes \<and> Unmarshal js bodyBytes = Inr newCheck
            \<and> Validate js newCheck = None \<and> CanCreate abilities newCheck \<longrightarrow>
            filter is_store_call (fst (single st js abilities r s))
              = [CallUpdateCheckConfig newCheck]
            \<and> snd (single st js abilities r s) = snd (UpdateCheckConfig st newCheck s))"
proof -
  have a: "single st js abilities (r\<lparr>Vars := vars\<rparr>) s = single st js abilities r s"
    using assms by (auto simp: single_PUT_POST single_upsert_def)
  have b: "filter is_store_call (fst (single st js abilities r s))
              = [CallUpdateCheckConfig newCheck]
          \<and> snd (single st js abilities r s) = snd (UpdateCheckConfig st newCheck s)"
    if "Body r = Inr bodyBytes \<and> Unmarshal js bodyBytes = Inr newCheck
            \<and> Validate js newCheck = None \<and> CanCreate abilities newCheck"
    using that assms
    by (auto simp: single_PUT_POST single_upsert_def upsert_switch_def
             split: prod.splits option.splits)
  from a b show ?thesis by blast
qed

text \<open>PUT /checks/zzz with a body that names the check y: y is what the store upserts.\<close>

theorem upsert_ignores_path_name_witness:
  "Method (request MethodPut [(''name'', ''zzz'')] ''y:new'') = MethodPut
   \<and> path_name (request MethodPut [(''name'', ''zzz'')] ''y:new'') \<noteq> Name check_y'
   \<and> single mem_store toy_codec allow_all
         ((request MethodPut [(''name'', ''zzz'')] ''y:new'')\<lparr>Vars := map_of [(''name'', ''y'')]\<rparr>)
         [check_y]
       = single mem_store toy_codec allow_all (request MethodPut [(''name'', ''zzz'')] ''y:new'')
           [check_y]
   \<and> Unmarshal toy_codec ''y:new'' = Inr check_y'
   \<and> Validate toy_codec check_y' = None
   \<and> CanCreate allow_all check_y'
   \<and> filter is_store_call
         (fst (single mem_store toy_codec allow_all
                 (request MethodPut [(''name'', ''zzz'')] ''y:new'') [check_y]))
       = [CallUpdateCheckConfig check_y']
   \<and> snd (single mem_store toy_codec allow_all
                 (request MethodPut [(''name'', ''zzz'')] ''y:new'') [check_y])
       = [check_y']"
  using upsert_ignores_path_name [where r = "request MethodPut [(''name'', ''zzz'')] ''y:new''"
          and st = mem_store and js = toy_codec and abilities = allow_all and s = "[check_y]"
          and vars = "map_of [(''name'', ''y'')]" and bodyBytes = "''y:new''"
          and newCheck = check_y']
  by (simp add: path_name_def fixtures)

end
